theory Spec2Isabelle
  imports Complex_Main "HOL-Library.AList"
begin

section \<open>Python values shared by both modules\<close>

text \<open>
  Exceptions are values: every \<^verbatim>\<open>raise\<close> of the two source files, and every exception
  that the Python or tensor operations they call raise on the inputs modelled here, is a
  constructor carrying the message. \<open>External\<close> is a failure reported by a collaborator
  that is not part of the repository (a model's forward pass, the feature extractor, the
  configuration loader, the document store).
\<close>

datatype error =
    ModelingError string
  | MultiModalRetrieverError string
  | ValueError string
  | IndexError string
  | KeyError string
  | AttributeError string
  | TypeError string
  | RuntimeError string
  | UnboundLocalError string
  | External string

definition bind_err :: "error + 'a \<Rightarrow> ('a \<Rightarrow> error + 'b) \<Rightarrow> error + 'b" where
  "bind_err m f = (case m of Inl e \<Rightarrow> Inl e | Inr x \<Rightarrow> f x)"

text \<open>A \<^verbatim>\<open>for\<close> loop that appends one result per element and stops at the first exception.\<close>

fun mapM_err :: "('a \<Rightarrow> error + 'b) \<Rightarrow> 'a list \<Rightarrow> error + 'b list" where
  "mapM_err f [] = Inr []"
| "mapM_err f (x # xs) =
     (case f x of
        Inl e \<Rightarrow> Inl e
      | Inr y \<Rightarrow> (case mapM_err f xs of Inl e \<Rightarrow> Inl e | Inr ys \<Rightarrow> Inr (y # ys)))"

text \<open>\<^verbatim>\<open>sep.join(xs)\<close>\<close>

fun join :: "string \<Rightarrow> string list \<Rightarrow> string" where
  "join sep [] = []"
| "join sep [x] = x"
| "join sep (x # y # ys) = x @ sep @ join sep (y # ys)"

text \<open>\<^verbatim>\<open>sorted(names)\<close> on strings: insertion sort by code-point-wise lexicographic order.\<close>

fun str_le :: "string \<Rightarrow> string \<Rightarrow> bool" where
  "str_le [] ys = True"
| "str_le (x # xs) [] = False"
| "str_le (x # xs) (y # ys) =
     (if (of_char x :: nat) < of_char y then True
      else if (of_char y :: nat) < of_char x then False
      else str_le xs ys)"

fun insert_sorted :: "string \<Rightarrow> string list \<Rightarrow> string list" where
  "insert_sorted x [] = [x]"
| "insert_sorted x (y # ys) = (if str_le x y then x # y # ys else y # insert_sorted x ys)"

definition sorted_strs :: "string list \<Rightarrow> string list" where
  "sorted_strs xs = foldr insert_sorted xs []"

text \<open>\<^verbatim>\<open>str.lower()\<close> on the ASCII letters (the keys of the tables below are ASCII).\<close>

definition lower_char :: "char \<Rightarrow> char" where
  "lower_char c =
     (case map_of (zip ''ABCDEFGHIJKLMNOPQRSTUVWXYZ'' ''abcdefghijklmnopqrstuvwxyz'') c of
        None \<Rightarrow> c
      | Some l \<Rightarrow> l)"

definition lower :: "string \<Rightarrow> string" where
  "lower s = map lower_char s"

text \<open>\<^verbatim>\<open>str(n)\<close> for a non-negative integer.\<close>

definition digit_char :: "nat \<Rightarrow> char" where
  "digit_char d = ''0123456789'' ! d"

fun str_nat :: "nat \<Rightarrow> string" where
  "str_nat n = (if n < 10 then [digit_char n] else str_nat (n div 10) @ [digit_char (n mod 10)])"

declare str_nat.simps [simp del]

text \<open>A Python \<^verbatim>\<open>dict\<close> literal or comprehension: later items overwrite earlier ones with the
  same key and keep the first position of the key.\<close>

definition dict_of :: "('k \<times> 'v) list \<Rightarrow> ('k \<times> 'v) list" where
  "dict_of items = fold (\<lambda>(k, v) d. AList.update k v d) items []"

text \<open>\<^verbatim>\<open>a | b\<close> on dicts: the right operand wins on a key collision.\<close>

definition dict_union :: "('k \<times> 'v) list \<Rightarrow> ('k \<times> 'v) list \<Rightarrow> ('k \<times> 'v) list" where
  "dict_union a b = fold (\<lambda>(k, v) d. AList.update k v d) b a"


section \<open>\<^verbatim>\<open>haystack/modeling/model/multimodal_language_model.py\<close>\<close>

subsection \<open>Wrapper classes and their expected inputs\<close>

datatype wrapper_class =
    TextLanguageModel
  | TextLanguageModelPlusPooler
  | ImageLanguageModel

text \<open>\<^verbatim>\<open>expected_inputs\<close>: the mandatory and the optional argument names of each class.\<close>

fun expected_inputs :: "wrapper_class \<Rightarrow> string list \<times> string list" where
  "expected_inputs TextLanguageModel = ([''input_ids'', ''token_type_ids'', ''attention_mask''], [])"
| "expected_inputs TextLanguageModelPlusPooler =
     ([''input_ids'', ''token_type_ids'', ''attention_mask''], [])"
| "expected_inputs ImageLanguageModel = ([''pixel_values''], [''bool_masked_pos'', ''head_mask''])"

text \<open>
  A tensor of shape \<open>[length (t_rows t), t_dim t]\<close>. The entries are opaque to this code,
  which only moves rows; they stand as reals.
\<close>

record tensor =
  t_dim :: nat
  t_rows :: "real list list"

text \<open>
  A loaded \<^verbatim>\<open>MultiModalLanguageModel\<close>. \<open>lm_expected\<close> is what the subclass declares as
  \<^verbatim>\<open>expected_inputs\<close>; \<open>lm_hook\<close> is the subclass's \<^verbatim>\<open>_forward\<close>, which runs the underlying
  pretrained network (an external collaborator) on the keyword arguments and answers a
  tensor or its own failure message.
\<close>

record 'f language_model =
  lm_model_type :: string
  lm_expected :: "string list \<times> string list"
  lm_hook :: "(string \<times> 'f) list \<Rightarrow> string + tensor"

definition input_mismatch_msg :: "string list \<Rightarrow> string list \<Rightarrow> string list \<Rightarrow> string" where
  "input_mismatch_msg given all_args mandatory_args =
     ''The input parameters do not match the model's expectations.'' @ [CHR 0x0A] @
     ''Input names: '' @ join '', '' (sorted_strs given) @ [CHR 0x0A] @
     ''Expected: '' @ join '', '' (sorted_strs all_args) @
     '' (where '' @ join '', '' (sorted_strs mandatory_args) @ '' are mandatory)''"

text \<open>\<^verbatim>\<open>_forward\<close>: the hook's answer, its failure surfacing as the collaborator's.\<close>

definition forward_hook :: "'f language_model \<Rightarrow> (string \<times> 'f) list \<Rightarrow> error + tensor" where
  "forward_hook lm kwargs = (case lm_hook lm kwargs of Inl m \<Rightarrow> Inl (External m) | Inr t \<Rightarrow> Inr t)"

text \<open>\<^verbatim>\<open>forward(**kwargs)\<close>; \<open>kwargs\<close> is the keyword dictionary in call order.\<close>

definition forward :: "'f language_model \<Rightarrow> (string \<times> 'f) list \<Rightarrow> error + tensor" where
  "forward lm kwargs =
     (let mandatory_args = fst (lm_expected lm);
          optional_args = snd (lm_expected lm);
          all_args = remdups (mandatory_args @ optional_args);
          given_args = map fst kwargs
      in if \<not> (set mandatory_args \<subseteq> set given_args \<and> set given_args \<subseteq> set all_args)
         then Inl (ModelingError (input_mismatch_msg given_args all_args mandatory_args))
         else forward_hook lm kwargs)"

subsection \<open>Model resolution\<close>

text \<open>\<^verbatim>\<open>HUGGINGFACE_TO_HAYSTACK\<close>\<close>

definition HUGGINGFACE_TO_HAYSTACK :: "(string \<times> wrapper_class) list" where
  "HUGGINGFACE_TO_HAYSTACK = dict_of
     [(''AutoModel'', TextLanguageModel),
      (''Data2VecTextForQuestionAnswering'', TextLanguageModel),
      (''Data2VecVisionForImageClassification'', ImageLanguageModel)]"

text \<open>\<^verbatim>\<open>HUGGINGFACE_CAPITALIZE\<close>, the first value with the leading blank the source has.\<close>

definition HUGGINGFACE_CAPITALIZE :: "(string \<times> string) list" where
  "HUGGINGFACE_CAPITALIZE = dict_of
     ([(''data2vec-text'', '' Data2VecTextForQuestionAnswering''),
       (''data2vec-vision'', ''Data2VecVisionForImageClassification'')] @
      map (\<lambda>k. (lower k, k)) (map fst HUGGINGFACE_TO_HAYSTACK))"

text \<open>\<^verbatim>\<open>HUGGINGFACE_DEFAULT_MODEL_PARAMS\<close>; parameter values are kept as their source text.\<close>

definition HUGGINGFACE_DEFAULT_MODEL_PARAMS :: "(string \<times> (string \<times> string) list) list" where
  "HUGGINGFACE_DEFAULT_MODEL_PARAMS = dict_of
     [(''Data2VecVisionForImageClassification'', [(''add_pooling_layer'', ''True'')])]"

text \<open>
  What \<^verbatim>\<open>get_mm_language_model\<close> hands to the wrapper's constructor. Loading the pretrained
  weights is the loader collaborator's work and is not modelled: the wrapper is
  represented by the class chosen and the arguments \<^verbatim>\<open>from_pretrained\<close> receives.
\<close>

record wrapper =
  w_class :: wrapper_class
  w_name :: string
  w_model_type :: string
  w_model_params :: "(string \<times> string) list"

definition unsupported_msg :: "string \<Rightarrow> string \<Rightarrow> string" where
  "unsupported_msg name model_type =
     ''The type of the given model (name/path: '' @ name @ '', detected type: '' @ model_type @ '') '' @
     ''is not supported by Haystack or was not correctly identified. Please use supported models only. '' @
     ''Supported model types: '' @ join '', '' (map fst HUGGINGFACE_TO_HAYSTACK)"

text \<open>
  \<open>autoconfig\<close> is \<^verbatim>\<open>AutoConfig.from_pretrained\<close>, answering the configuration's
  \<^verbatim>\<open>model_type\<close> string (empty when the configuration has none) or its own failure.
  The logging of the empty \<^verbatim>\<open>model_type\<close> has no effect on the result.
\<close>

definition get_mm_language_model ::
  "(string \<Rightarrow> string + string) \<Rightarrow> string \<Rightarrow> (string \<times> string) list option \<Rightarrow> error + wrapper" where
  "get_mm_language_model autoconfig pretrained_model_name_or_path model_kwargs =
     (if pretrained_model_name_or_path = []
      then Inl (ValueError (pretrained_model_name_or_path @
                  '' is not a valid pretrained_model_name_or_path parameter''))
      else case autoconfig pretrained_model_name_or_path of
        Inl m \<Rightarrow> Inl (External m)
      | Inr config_model_type \<Rightarrow>
          (let model_type =
                 (case map_of HUGGINGFACE_CAPITALIZE (lower config_model_type) of
                    None \<Rightarrow> ''AutoModel'' | Some t \<Rightarrow> t)
           in case map_of HUGGINGFACE_TO_HAYSTACK model_type of
                None \<Rightarrow> Inl (ValueError (unsupported_msg pretrained_model_name_or_path model_type))
              | Some language_model_class \<Rightarrow>
                  Inr \<lparr>w_class = language_model_class,
                       w_name = pretrained_model_name_or_path,
                       w_model_type = model_type,
                       w_model_params =
                         dict_union
                           (case map_of HUGGINGFACE_DEFAULT_MODEL_PARAMS model_type of
                              None \<Rightarrow> [] | Some d \<Rightarrow> d)
                           (case model_kwargs of None \<Rightarrow> [] | Some d \<Rightarrow> d)\<rparr>))"


section \<open>\<^verbatim>\<open>haystack/nodes/retriever/multimodal.py\<close>\<close>

subsection \<open>Documents and the document converters\<close>

text \<open>
  A \<^verbatim>\<open>Document\<close>'s content is a string (a text, or the path of an image) or a table
  (a data frame: its column names and its rows of cells). \<open>meta\<close> is the meta dictionary
  in insertion order.
\<close>

datatype content = CStr string | CFrame "string list" "string list list"

record document =
  content :: content
  content_type :: string
  meta :: "(string \<times> string) list"

text \<open>What a converter hands to the feature extractor: a string, or the image opened from
  a path (decoding is the imaging library's work; the image is named by its path).\<close>

datatype payload = PStr string | PImage string

text \<open>\<^verbatim>\<open>DOCUMENT_CONVERTERS["text"]\<close>: \<^verbatim>\<open>doc.content[:-1] if doc.content[-1] == "?" else doc.content\<close>.
  Indexing an empty string raises; a data frame has no column \<^verbatim>\<open>-1\<close>.\<close>

definition text_converter :: "document \<Rightarrow> error + payload" where
  "text_converter doc =
     (case content doc of
        CStr s \<Rightarrow>
          (if s = [] then Inl (IndexError ''string index out of range'')
           else if last s = CHR ''?'' then Inr (PStr (butlast s))
           else Inr (PStr s))
      | CFrame cols vals \<Rightarrow> Inl (KeyError ''-1''))"

text \<open>\<^verbatim>\<open>DOCUMENT_CONVERTERS["table"]\<close>\<close>

definition table_converter :: "document \<Rightarrow> error + payload" where
  "table_converter doc =
     (case content doc of
        CStr s \<Rightarrow> Inl (AttributeError ''str object has no attribute columns'')
      | CFrame cols vals \<Rightarrow> Inr (PStr (join '' '' (cols @ concat vals))))"

text \<open>\<^verbatim>\<open>DOCUMENT_CONVERTERS["image"]\<close>\<close>

definition image_converter :: "document \<Rightarrow> error + payload" where
  "image_converter doc =
     (case content doc of
        CStr p \<Rightarrow> Inr (PImage p)
      | CFrame cols vals \<Rightarrow> Inl (AttributeError ''DataFrame object has no attribute read''))"

definition DOCUMENT_CONVERTERS :: "(string \<times> (document \<Rightarrow> error + payload)) list" where
  "DOCUMENT_CONVERTERS = dict_of
     [(''text'', text_converter), (''table'', table_converter), (''image'', image_converter)]"

definition CAN_EMBED_META :: "string list" where
  "CAN_EMBED_META = [''text'', ''table'']"

text \<open>
  Modelled from the spec: \<^verbatim>\<open>ContentTypes\<close> of \<^verbatim>\<open>haystack.schema\<close>, which is not among the source
  files; the spec names the content types \<^verbatim>\<open>text\<close>, \<^verbatim>\<open>table\<close>, \<^verbatim>\<open>image\<close>.
  This list is \<^verbatim>\<open>get_args(ContentTypes)\<close>.
\<close>

definition ContentTypes :: "string list" where
  "ContentTypes = [''text'', ''table'', ''image'']"

datatype sample_class = TextSample | ImageSample

definition SAMPLES_BY_DATATYPE :: "(string \<times> sample_class) list" where
  "SAMPLES_BY_DATATYPE = dict_of
     [(''text'', TextSample), (''table'', TextSample), (''image'', ImageSample)]"

subsection \<open>The embedder\<close>

text \<open>
  What a model is given: the raw data list (for a sentence-transformers model) or the named
  tensors of the feature extractor. \<open>'f\<close> is the type of one feature tensor, opaque here.
\<close>

datatype 'f model_input = RawData "payload list" | Features "(string \<times> 'f) list"

text \<open>
  The two kinds of model an embedder holds. A sentence-transformers model is an external
  collaborator, given by its \<^verbatim>\<open>encode\<close>; the other kind is the wrapper of the first module.
\<close>

datatype 'f model =
    SentenceTransformer "'f model_input \<Rightarrow> string + tensor"
  | LanguageModel "'f language_model"

text \<open>\<^verbatim>\<open>Sample.get_features(data, feature_extractor, extraction_params)\<close> for one extractor:
  the sample class, the data and the parameters give named tensors or a failure.\<close>

type_synonym 'f feature_extractor =
  "sample_class \<Rightarrow> payload list \<Rightarrow> (string \<times> int) list \<Rightarrow> string + (string \<times> 'f) list"

text \<open>The fields of a constructed \<^verbatim>\<open>MultiModalEmbedder\<close> that \<^verbatim>\<open>embed\<close> reads.\<close>

record 'f embedder =
  batch_size :: int
  embed_meta_fields :: "string list"
  feature_extractors_params :: "(string \<times> (string \<times> int) list) list"
  feature_extractors :: "(string \<times> 'f feature_extractor) list"
  models :: "(string \<times> 'f model) list"

definition unknown_content_type_msg :: "string \<Rightarrow> string" where
  "unknown_content_type_msg ct =
     ''Unknown content type '' @ [CHR 0x27] @ ct @ [CHR 0x27] @ ''. Known types: '' @
     join '', '' ContentTypes"

text \<open>The f-string \<^verbatim>\<open>f"{meta} {data}"\<close>; only string payloads reach it, since an image
  is not in \<^verbatim>\<open>CAN_EMBED_META\<close>.\<close>

fun prefix_meta :: "string \<Rightarrow> payload \<Rightarrow> payload" where
  "prefix_meta m (PStr s) = PStr (m @ '' '' @ s)"
| "prefix_meta m (PImage p) = PStr (m @ '' '' @ p)"

text \<open>The loop of \<^verbatim>\<open>_docs_to_data\<close> over the documents; \<open>docs_data\<close> is the dictionary filled
  so far. \<^verbatim>\<open>" ".join(doc.meta or [])\<close> joins the keys of the meta dictionary.\<close>

fun docs_to_data_loop ::
  "'f embedder \<Rightarrow> document list \<Rightarrow> (string \<times> payload list) list \<Rightarrow>
   error + (string \<times> payload list) list" where
  "docs_to_data_loop E [] docs_data = Inr docs_data"
| "docs_to_data_loop E (doc # docs) docs_data =
     (case map_of DOCUMENT_CONVERTERS (content_type doc) of
        None \<Rightarrow> Inl (MultiModalRetrieverError (unknown_content_type_msg (content_type doc)))
      | Some document_converter \<Rightarrow>
          (case document_converter doc of
             Inl e \<Rightarrow> Inl e
           | Inr data \<Rightarrow>
               (let item =
                      (if embed_meta_fields E \<noteq> [] \<and> content_type doc \<in> set CAN_EMBED_META
                       then (let m = join '' '' (map fst (meta doc))
                             in if m \<noteq> [] then prefix_meta m data else data)
                       else data)
                in case map_of docs_data (content_type doc) of
                     None \<Rightarrow> Inl (KeyError (content_type doc))
                   | Some vs \<Rightarrow>
                       docs_to_data_loop E docs
                         (AList.update (content_type doc) (vs @ [item]) docs_data))))"

text \<open>\<^verbatim>\<open>_docs_to_data\<close>\<close>

definition docs_to_data ::
  "'f embedder \<Rightarrow> document list \<Rightarrow> error + (string \<times> payload list) list" where
  "docs_to_data E documents =
     bind_err (docs_to_data_loop E documents (map (\<lambda>key. (key, [])) ContentTypes))
       (\<lambda>docs_data. Inr (filter (\<lambda>(key, vs). vs \<noteq> []) docs_data))"

definition data_type_not_recognized_msg :: "string \<Rightarrow> string" where
  "data_type_not_recognized_msg data_type =
     ''Data type '' @ [CHR 0x27] @ data_type @ [CHR 0x27] @ '' not recognized. '' @
     ''Please select one data type among '' @ join '', '' (map fst SAMPLES_BY_DATATYPE)"

text \<open>\<^verbatim>\<open>get_features\<close>\<close>

definition get_features ::
  "payload list \<Rightarrow> string \<Rightarrow> 'f feature_extractor \<Rightarrow> (string \<times> int) list \<Rightarrow>
   error + (string \<times> 'f) list" where
  "get_features data data_type feature_extractor extraction_params =
     (case map_of SAMPLES_BY_DATATYPE data_type of
        None \<Rightarrow> Inl (ModelingError (data_type_not_recognized_msg data_type))
      | Some sample_class \<Rightarrow>
          (case feature_extractor sample_class data extraction_params of
             Inl m \<Rightarrow> Inl (External m)
           | Inr features \<Rightarrow> Inr features))"

text \<open>The message of the empty feature dictionary, up to the printed extractor objects
  that end it in the source.\<close>

definition no_features_msg :: "string \<Rightarrow> string" where
  "no_features_msg data_type =
     ''Could not extract features for data of type '' @ data_type @ ''. '' @
     ''Check that your feature extractor is correct for this data type:''"

text \<open>Lines 207 to 229 of \<^verbatim>\<open>embed\<close>: the features of one content type. Moving the tensors to
  the device changes no value.\<close>

definition extract_features ::
  "'f embedder \<Rightarrow> string \<Rightarrow> payload list \<Rightarrow> error + 'f model_input" where
  "extract_features E data_type data_list =
     (case map_of (feature_extractors E) data_type of
        None \<Rightarrow> Inr (RawData data_list)
      | Some feature_extractor \<Rightarrow>
          (case get_features data_list data_type feature_extractor
                  (case map_of (feature_extractors_params E) data_type of
                     None \<Rightarrow> [] | Some ps \<Rightarrow> ps) of
             Inl e \<Rightarrow> Inl e
           | Inr features \<Rightarrow>
               if features = [] then Inl (ModelingError (no_features_msg data_type))
               else Inr (Features features)))"

text \<open>\<^verbatim>\<open>model.encode(inputs, convert_to_tensor=True)\<close>: the wrapper class has no such method.\<close>

fun model_encode :: "'f model \<Rightarrow> 'f model_input \<Rightarrow> error + tensor" where
  "model_encode (SentenceTransformer encode) inputs =
     (case encode inputs of Inl m \<Rightarrow> Inl (External m) | Inr t \<Rightarrow> Inr t)"
| "model_encode (LanguageModel lm) inputs =
     Inl (AttributeError ''object has no attribute encode'')"

text \<open>\<^verbatim>\<open>model.forward(**inputs)\<close>: unpacking a list with \<^verbatim>\<open>**\<close> is a type error, and so is
  calling a sentence-transformers model's \<^verbatim>\<open>forward\<close> with keyword arguments only.\<close>

fun model_forward :: "'f model \<Rightarrow> 'f model_input \<Rightarrow> error + tensor" where
  "model_forward model (RawData data_list) =
     Inl (TypeError ''argument after ** must be a mapping, not list'')"
| "model_forward (SentenceTransformer encode) (Features kwargs) =
     Inl (TypeError ''forward() missing 1 required positional argument'')"
| "model_forward (LanguageModel lm) (Features kwargs) = forward lm kwargs"

definition no_model_msg :: "'f embedder \<Rightarrow> string \<Rightarrow> string" where
  "no_model_msg E key =
     ''Some input tensor were passed for models handling '' @ key @ '' data, '' @
     ''but no such model was initialized. They will be ignored.'' @
     ''Initialized models: '' @ join '', '' (map fst (models E))"

text \<open>The body of the loop of lines 233 to 249 for one \<open>key\<close>; \<open>data_type\<close> is the variable of
  the enclosing loop, which line 243 reads.\<close>

definition run_model ::
  "'f embedder \<Rightarrow> string \<Rightarrow> string \<Rightarrow> 'f model_input \<Rightarrow> error + tensor" where
  "run_model E data_type key inputs =
     (case map_of (models E) key of
        None \<Rightarrow> Inl (ModelingError (no_model_msg E key))
      | Some model \<Rightarrow>
          (if map_of (feature_extractors E) data_type = None
           then model_encode model inputs
           else model_forward model inputs))"

text \<open>The message of the size check; the f-string prints the dictionary of sizes as
  \<^verbatim>\<open>{'text': 768, 'image': 512}\<close>.\<close>

definition sizes_repr :: "(string \<times> tensor) list \<Rightarrow> string" where
  "sizes_repr outputs_by_type =
     ''{'' @ join '', '' (map (\<lambda>(name, output). [CHR 0x27] @ name @ [CHR 0x27] @ '': '' @
                               str_nat (t_dim output)) outputs_by_type) @ ''}''"

definition embedding_size_msg :: "(string \<times> tensor) list \<Rightarrow> string" where
  "embedding_size_msg outputs_by_type =
     ''Some of the models are using a different embedding size. They should all match. '' @
     ''Embedding sizes by model: '' @ sizes_repr outputs_by_type"

text \<open>\<^verbatim>\<open>torch.stack\<close>: every tensor must have the shape of the first. The result is the
  list of the stacked blocks.\<close>

definition torch_stack :: "tensor list \<Rightarrow> error + tensor list" where
  "torch_stack ts =
     (case ts of
        [] \<Rightarrow> Inl (RuntimeError ''stack expects a non-empty TensorList'')
      | t0 # _ \<Rightarrow>
          if list_all (\<lambda>t. length (t_rows t) = length (t_rows t0) \<and> t_dim t = t_dim t0) ts
          then Inr ts
          else Inl (RuntimeError ''stack expects each tensor to be equal size''))"

text \<open>\<^verbatim>\<open>outputs.view(-1, d)\<close> on stacked blocks whose last dimension is \<open>d\<close>: the rows of the
  blocks, block after block. With \<open>d = 0\<close> the free dimension is ambiguous.\<close>

definition view :: "tensor list \<Rightarrow> nat \<Rightarrow> error + tensor" where
  "view blocks d =
     (if d = 0 then Inl (RuntimeError ''cannot reshape tensor of 0 elements'')
      else Inr \<lparr>t_dim = d, t_rows = concat (map t_rows blocks)\<rparr>)"

text \<open>Lines 251 to 263: the size check, the stacking and the reshaping.\<close>

definition combine_outputs :: "(string \<times> tensor) list \<Rightarrow> error + tensor" where
  "combine_outputs outputs_by_type =
     (case outputs_by_type of
        [] \<Rightarrow> Inl (IndexError ''list index out of range'')
      | (name0, output0) # _ \<Rightarrow>
          if \<not> list_all (\<lambda>(name, output). t_dim output = t_dim output0) outputs_by_type
          then Inl (ModelingError (embedding_size_msg outputs_by_type))
          else bind_err (torch_stack (map snd outputs_by_type))
                 (\<lambda>outputs. view outputs (t_dim output0)))"

text \<open>
  The loop of lines 205 to 263 over the content types of one batch. \<open>features_by_type\<close> is
  the dictionary filled so far and \<open>embeddings\<close> the variable the loop assigns. As in the
  source, the models of all content types seen so far run again in every round, and the
  size check, the stacking and the assignment to \<open>embeddings\<close> are inside the loop.
\<close>

fun embed_types ::
  "'f embedder \<Rightarrow> (string \<times> payload list) list \<Rightarrow> (string \<times> 'f model_input) list \<Rightarrow>
   tensor option \<Rightarrow> error + tensor option" where
  "embed_types E [] features_by_type embeddings = Inr embeddings"
| "embed_types E ((data_type, data_list) # rest) features_by_type embeddings =
     bind_err (extract_features E data_type data_list) (\<lambda>features.
       let features_by_type' = AList.update data_type features features_by_type in
       bind_err (mapM_err (\<lambda>(key, inputs).
                   bind_err (run_model E data_type key inputs) (\<lambda>output. Inr (key, output)))
                   features_by_type') (\<lambda>outputs_by_type.
       bind_err (combine_outputs outputs_by_type) (\<lambda>embeddings'.
       embed_types E rest features_by_type' (Some embeddings'))))"

text \<open>The body of the loop over the batches, for one slice of documents. A slice is never
  empty, so \<open>embeddings\<close> has been assigned when it is appended.\<close>

definition embed_batch :: "'f embedder \<Rightarrow> document list \<Rightarrow> error + tensor" where
  "embed_batch E docs_batch =
     bind_err (docs_to_data E docs_batch) (\<lambda>data_by_type.
     bind_err (embed_types E data_by_type [] None) (\<lambda>embeddings.
       case embeddings of
         None \<Rightarrow> Inl (UnboundLocalError ''embeddings'')
       | Some t \<Rightarrow> Inr t))"

text \<open>\<^verbatim>\<open>range(0, n, batch_size)\<close> for a non-zero step: empty for a negative one.\<close>

definition batch_starts :: "nat \<Rightarrow> int \<Rightarrow> nat list" where
  "batch_starts n bs =
     (if bs \<le> 0 then []
      else map (\<lambda>k. k * nat bs) [0 ..< (n + nat bs - 1) div nat bs])"

text \<open>\<^verbatim>\<open>np.concatenate\<close> of the batch blocks along the rows.\<close>

definition np_concatenate :: "tensor list \<Rightarrow> error + real list list" where
  "np_concatenate all_embeddings =
     (case all_embeddings of
        [] \<Rightarrow> Inl (ValueError ''need at least one array to concatenate'')
      | t0 # _ \<Rightarrow>
          if list_all (\<lambda>t. t_dim t = t_dim t0) all_embeddings
          then Inr (concat (map t_rows all_embeddings))
          else Inl (ValueError ''all the input array dimensions except for the concatenation axis must match exactly''))"

text \<open>\<^verbatim>\<open>MultiModalEmbedder.embed\<close>; the progress bar shows and changes nothing.\<close>

definition embed ::
  "'f embedder \<Rightarrow> document list \<Rightarrow> int option \<Rightarrow> error + real list list" where
  "embed E documents batch_size_arg =
     (let bs = (case batch_size_arg of None \<Rightarrow> batch_size E | Some b \<Rightarrow> b)
      in if bs = 0 then Inl (ValueError ''range() arg 3 must not be zero'')
         else bind_err
                (mapM_err (\<lambda>batch_index. embed_batch E (take (nat bs) (drop batch_index documents)))
                   (batch_starts (length documents) bs))
                np_concatenate)"

subsection \<open>The retriever\<close>

type_synonym filter_dict = "(string \<times> string) list"

text \<open>The \<^verbatim>\<open>filters\<close> argument of \<^verbatim>\<open>retrieve_batch\<close>: \<^verbatim>\<open>None\<close>, one filter dictionary, or a
  list of filters (whose elements may be \<^verbatim>\<open>None\<close>, as \<^verbatim>\<open>retrieve\<close> passes them).\<close>

datatype filters_arg = FNone | FDict filter_dict | FList "filter_dict option list"

text \<open>What reaches the document store as \<^verbatim>\<open>filters\<close> of one query: \<^verbatim>\<open>None\<close>, a dictionary,
  or a key of a dictionary (iterating a dictionary yields its keys).\<close>

datatype store_filter = SNone | SDict filter_dict | SKey string

record store_query =
  q_query_emb :: "real list"
  q_top_k :: int
  q_filters :: store_filter
  q_index :: string
  q_headers :: "(string \<times> string) list option"
  q_scale_score :: bool

text \<open>The document store collaborator: its default index and \<^verbatim>\<open>query_by_embedding\<close>.\<close>

record document_store =
  index :: string
  query_by_embedding :: "store_query \<Rightarrow> string + document list"

record 'f retriever =
  top_k :: int
  scale_score :: bool
  query_embedder :: "'f embedder"
  passage_embedder :: "'f embedder"
  document_store :: document_store

definition filter_count_msg :: string where
  "filter_count_msg =
     ''Number of filters does not match number of queries. Please provide as many filters '' @
     ''as queries, or a single filter that will be applied to all queries.''"

text \<open>\<^verbatim>\<open>isinstance(filters, Iterable)\<close>: a dictionary and a list are iterable, \<^verbatim>\<open>None\<close> is not.\<close>

fun is_iterable :: "filters_arg \<Rightarrow> bool" where
  "is_iterable FNone = False"
| "is_iterable (FDict d) = True"
| "is_iterable (FList fs) = True"

text \<open>\<^verbatim>\<open>len(filters)\<close>, and the values that iterating \<^verbatim>\<open>filters\<close> yields.\<close>

fun filters_len :: "filters_arg \<Rightarrow> nat" where
  "filters_len FNone = 0"
| "filters_len (FDict d) = length d"
| "filters_len (FList fs) = length fs"

fun filters_items :: "filters_arg \<Rightarrow> store_filter list" where
  "filters_items FNone = []"
| "filters_items (FDict d) = map (\<lambda>(k, v). SKey k) d"
| "filters_items (FList fs) = map (\<lambda>f. case f of None \<Rightarrow> SNone | Some d \<Rightarrow> SDict d) fs"

text \<open>Lines 451 to 460 of \<^verbatim>\<open>retrieve_batch\<close>: \<open>filters_list\<close>. In the first branch \<^verbatim>\<open>filters\<close> is
  \<^verbatim>\<open>None\<close>, so \<^verbatim>\<open>filters or {}\<close> is the empty dictionary.\<close>

definition filters_list :: "filters_arg \<Rightarrow> 'q list \<Rightarrow> error + store_filter list" where
  "filters_list filters queries =
     (if \<not> is_iterable filters then Inr (replicate (length queries) (SDict []))
      else if filters_len filters \<noteq> length queries
           then Inl (MultiModalRetrieverError filter_count_msg)
           else Inr (filters_items filters))"

text \<open>The store queries that \<^verbatim>\<open>retrieve_batch\<close> issues, in order: lines 451 to 480 up to
  the call of the store.\<close>

definition store_queries ::
  "'f retriever \<Rightarrow> string list \<Rightarrow> string \<Rightarrow> filters_arg \<Rightarrow> int option \<Rightarrow> string option \<Rightarrow>
   (string \<times> string) list option \<Rightarrow> int option \<Rightarrow> bool option \<Rightarrow> error + store_query list" where
  "store_queries R queries ctype filters top_k_arg index_arg headers batch_size_arg scale_score_arg =
     bind_err (filters_list filters queries) (\<lambda>fl.
       let top_k' = (case top_k_arg of None \<Rightarrow> top_k R
                     | Some k \<Rightarrow> if k = 0 then top_k R else k);
           index' = (case index_arg of None \<Rightarrow> index (document_store R)
                     | Some i \<Rightarrow> if i = [] then index (document_store R) else i);
           scale_score' = (case scale_score_arg of None \<Rightarrow> scale_score R
                           | Some b \<Rightarrow> if b then True else scale_score R);
           query_docs = map (\<lambda>query. \<lparr>content = CStr query, content_type = ctype, meta = []\<rparr>) queries
       in bind_err (embed (query_embedder R) query_docs batch_size_arg) (\<lambda>query_embeddings.
            Inr (map (\<lambda>(query_embedding, query_filters).
                        \<lparr>q_query_emb = query_embedding, q_top_k = top_k', q_filters = query_filters,
                         q_index = index', q_headers = headers, q_scale_score = scale_score'\<rparr>)
                     (zip query_embeddings fl))))"

text \<open>\<^verbatim>\<open>MultiModalRetriever.retrieve_batch\<close>\<close>

definition retrieve_batch ::
  "'f retriever \<Rightarrow> string list \<Rightarrow> string \<Rightarrow> filters_arg \<Rightarrow> int option \<Rightarrow> string option \<Rightarrow>
   (string \<times> string) list option \<Rightarrow> int option \<Rightarrow> bool option \<Rightarrow> error + document list list" where
  "retrieve_batch R queries ctype filters top_k_arg index_arg headers batch_size_arg scale_score_arg =
     bind_err (store_queries R queries ctype filters top_k_arg index_arg headers batch_size_arg
                 scale_score_arg)
       (mapM_err (\<lambda>q. case query_by_embedding (document_store R) q of
                         Inl m \<Rightarrow> Inl (External m)
                       | Inr docs \<Rightarrow> Inr docs))"

text \<open>\<^verbatim>\<open>MultiModalRetriever.retrieve\<close>: the first element of the batch result.\<close>

definition retrieve ::
  "'f retriever \<Rightarrow> string \<Rightarrow> string \<Rightarrow> filter_dict option \<Rightarrow> int option \<Rightarrow> string option \<Rightarrow>
   (string \<times> string) list option \<Rightarrow> bool option \<Rightarrow> error + document list" where
  "retrieve R query ctype filters top_k_arg index_arg headers scale_score_arg =
     bind_err (retrieve_batch R [query] ctype (FList [filters]) top_k_arg index_arg headers (Some 1)
                 scale_score_arg)
       (\<lambda>results. case results of
                    [] \<Rightarrow> Inl (IndexError ''list index out of range'')
                  | docs # _ \<Rightarrow> Inr docs)"


section \<open>Concrete embedders, documents and a retriever\<close>

text \<open>
  Sentence-transformers models for the evaluations below: the row of a payload is a tag
  of the model, the length of the payload, and a padding that fixes the embedding size.
\<close>

fun payload_len :: "payload \<Rightarrow> nat" where
  "payload_len (PStr s) = length s"
| "payload_len (PImage p) = length p"

definition demo_encode :: "real \<Rightarrow> real list \<Rightarrow> unit model_input \<Rightarrow> string + tensor" where
  "demo_encode tag pad inputs =
     (case inputs of
        RawData data_list \<Rightarrow>
          Inr \<lparr>t_dim = 2 + length pad,
               t_rows = map (\<lambda>p. [tag, real (payload_len p)] @ pad) data_list\<rparr>
      | Features kwargs \<Rightarrow> Inl ''encode expects sentences'')"

text \<open>Three models of embedding size 2.\<close>

definition demo_embedder :: "unit embedder" where
  "demo_embedder =
     \<lparr>batch_size = 16, embed_meta_fields = [''name''], feature_extractors_params = [],
      feature_extractors = [],
      models = [(''text'', SentenceTransformer (demo_encode 1 [])),
                (''table'', SentenceTransformer (demo_encode 2 [])),
                (''image'', SentenceTransformer (demo_encode 3 []))]\<rparr>"

text \<open>The same with an image model of embedding size 3.\<close>

definition mispaired_embedder :: "unit embedder" where
  "mispaired_embedder =
     demo_embedder\<lparr>models := [(''text'', SentenceTransformer (demo_encode 1 [])),
                               (''table'', SentenceTransformer (demo_encode 2 [])),
                               (''image'', SentenceTransformer (demo_encode 3 [0]))]\<rparr>"

text \<open>An embedder that was given a text model only.\<close>

definition text_only_embedder :: "unit embedder" where
  "text_only_embedder =
     demo_embedder\<lparr>models := [(''text'', SentenceTransformer (demo_encode 1 []))]\<rparr>"

definition str_doc :: "string \<Rightarrow> string \<Rightarrow> document" where
  "str_doc ctype c = \<lparr>content = CStr c, content_type = ctype, meta = []\<rparr>"

definition table_doc :: document where
  "table_doc = \<lparr>content = CFrame [''city''] [[''Paris'']], content_type = ''table'', meta = []\<rparr>"

definition demo_store :: document_store where
  "demo_store =
     \<lparr>index = ''document'', query_by_embedding = (\<lambda>q. Inr [str_doc ''text'' ''hit''])\<rparr>"

definition demo_retriever :: "unit retriever" where
  "demo_retriever =
     \<lparr>top_k = 10, scale_score = True, query_embedder = demo_embedder,
      passage_embedder = demo_embedder, document_store = demo_store\<rparr>"


section \<open>Properties\<close>

lemmas run_defs =
  embed_def batch_starts_def embed_batch_def docs_to_data_def ContentTypes_def
  DOCUMENT_CONVERTERS_def dict_of_def text_converter_def image_converter_def
  table_converter_def CAN_EMBED_META_def bind_err_def extract_features_def run_model_def
  combine_outputs_def torch_stack_def view_def np_concatenate_def
  demo_encode_def demo_embedder_def mispaired_embedder_def text_only_embedder_def
  str_doc_def table_doc_def demo_store_def demo_retriever_def
  store_queries_def retrieve_batch_def retrieve_def filters_list_def

subsection \<open>Loops that stop at the first exception\<close>














subsection \<open>An unknown content type stops \<^verbatim>\<open>embed\<close>\<close>



subsection \<open>One query, one filter\<close>


subsection \<open>The text converter\<close>

text \<open>
  C9. The converter registered for \<^verbatim>\<open>text\<close> maps a non-empty content string, written as
  \<open>s @ [c]\<close>, to \<open>s\<close> when its last character \<open>c\<close> is a question mark and to the whole string
  otherwise; a content ending in two question marks keeps the first of them.
\<close>

theorem text_converter_strips_one_question_mark:
  "map_of DOCUMENT_CONVERTERS ''text'' = Some text_converter \<and>
   text_converter (doc\<lparr>content := CStr (s @ [c])\<rparr>) =
     Inr (PStr (if c = CHR ''?'' then s else s @ [c])) \<and>
   text_converter (doc\<lparr>content := CStr (s @ ''??'')\<rparr>) = Inr (PStr (s @ ''?''))"
  by (simp add: DOCUMENT_CONVERTERS_def dict_of_def text_converter_def butlast_append)

subsection \<open>Input validation of \<^verbatim>\<open>forward\<close>\<close>


subsection \<open>Model resolution\<close>

text \<open>
  C8, at the detected type \<^verbatim>\<open>data2vec-text\<close>: for every non-empty model name and all model
  arguments, the alias table answers the key with a leading blank, the registry has no
  such key, and \<^verbatim>\<open>get_mm_language_model\<close> raises the unsupported-model error; the detected
  type \<^verbatim>\<open>data2vec-vision\<close> is resolved to the image wrapper.
\<close>

theorem get_mm_language_model_data2vec_text_unsupported:
  "get_mm_language_model (\<lambda>name. Inr ''data2vec-text'') (c # name) model_kwargs =
     Inl (ValueError (unsupported_msg (c # name) '' Data2VecTextForQuestionAnswering'')) \<and>
   map_of HUGGINGFACE_TO_HAYSTACK '' Data2VecTextForQuestionAnswering'' = None \<and>
   get_mm_language_model (\<lambda>name. Inr ''data2vec-vision'') (c # name) None =
     Inr \<lparr>w_class = ImageLanguageModel, w_name = c # name,
          w_model_type = ''Data2VecVisionForImageClassification'',
          w_model_params = [(''add_pooling_layer'', ''True'')]\<rparr>"
  by (simp add: get_mm_language_model_def HUGGINGFACE_CAPITALIZE_def
      HUGGINGFACE_TO_HAYSTACK_def HUGGINGFACE_DEFAULT_MODEL_PARAMS_def dict_of_def
      dict_union_def lower_def lower_char_def)

subsection \<open>Filters of \<^verbatim>\<open>retrieve_batch\<close>\<close>

text \<open>
  C3, at a single filter dictionary: with two queries and the one-key filter
  \<^verbatim>\<open>{"x": "1"}\<close> every retriever raises the count-mismatch error, since the dictionary is
  iterable and has one key; with one query the same filter passes the length test and the
  store is queried with the key \<^verbatim>\<open>"x"\<close> in place of the filter.
\<close>

theorem retrieve_batch_single_filter_not_broadcast:
  "retrieve_batch R [''a'', ''b''] ctype (FDict [(''x'', ''1'')]) top_k_arg index_arg headers
     batch_size_arg scale_score_arg = Inl (MultiModalRetrieverError filter_count_msg) \<and>
   store_queries demo_retriever [''q''] ''text'' (FDict [(''x'', ''1'')]) None None None (Some 1)
     None =
     Inr [\<lparr>q_query_emb = [1, 1], q_top_k = 10, q_filters = SKey ''x'', q_index = ''document'',
           q_headers = None, q_scale_score = True\<rparr>]"
  by (simp add: run_defs)

subsection \<open>Falsy per-call arguments of \<^verbatim>\<open>retrieve_batch\<close>\<close>



subsection \<open>Batches that mix content types\<close>

text \<open>
  C1, at mixed batches. With three models of the same embedding size: two texts and an
  image in one batch make \<^verbatim>\<open>torch.stack\<close> fail, so no matrix is returned; an image followed
  by a text in one batch gives two rows of which the first is the row of the text (the
  image alone embeds to \<open>[3, 7]\<close>, the text alone to \<open>[1, 2]\<close>).
\<close>

theorem embed_mixed_batch_rows:
  "embed demo_embedder
     [str_doc ''text'' ''a'', str_doc ''text'' ''hi'', str_doc ''image'' ''cat.png''] (Some 3) =
     Inl (RuntimeError ''stack expects each tensor to be equal size'') \<and>
   embed demo_embedder [str_doc ''image'' ''cat.png'', str_doc ''text'' ''hi''] (Some 2) =
     Inr [[1, 2], [3, 7]] \<and>
   embed demo_embedder [str_doc ''image'' ''cat.png''] (Some 2) = Inr [[3, 7]] \<and>
   embed demo_embedder [str_doc ''text'' ''hi''] (Some 2) = Inr [[1, 2]]"
  by (simp add: run_defs)

text \<open>
  C4, at the batch sizes 1 and 2: the same two documents, an image followed by a text,
  give the rows in document order with batch size 1 and in the order of the content types
  with batch size 2.
\<close>

theorem embed_depends_on_batch_size:
  "embed demo_embedder [str_doc ''image'' ''cat.png'', str_doc ''text'' ''hi''] (Some 1) =
     Inr [[3, 7], [1, 2]] \<and>
   embed demo_embedder [str_doc ''image'' ''cat.png'', str_doc ''text'' ''hi''] (Some 2) =
     Inr [[1, 2], [3, 7]]"
  by (simp add: run_defs)

text \<open>
  C2, at a batch of three content types. The text and table models have embedding size 2
  and the image model 3. A batch of a text and an image is refused with the error that
  reports the sizes; a batch of two texts, a table and an image fails earlier, when the
  text and table outputs (equal sizes, unequal numbers of rows) are stacked in the round
  of the table, and the error is the \<^verbatim>\<open>RuntimeError\<close> of \<^verbatim>\<open>torch.stack\<close>.
\<close>

theorem embed_size_mismatch_hidden_by_stack:
  "embed mispaired_embedder
     [str_doc ''text'' ''a'', str_doc ''text'' ''hi'', table_doc, str_doc ''image'' ''cat.png'']
     (Some 4) =
     Inl (RuntimeError ''stack expects each tensor to be equal size'') \<and>
   embed mispaired_embedder [str_doc ''text'' ''a'', str_doc ''image'' ''cat.png''] (Some 4) =
     Inl (ModelingError (embedding_size_msg
            [(''text'', \<lparr>t_dim = 2, t_rows = [[1, 1]]\<rparr>),
             (''image'', \<lparr>t_dim = 3, t_rows = [[3, 7, 0]]\<rparr>)]))"
  by (simp add: run_defs)

subsection \<open>Unknown content types\<close>




subsection \<open>\<^verbatim>\<open>retrieve\<close> and \<^verbatim>\<open>retrieve_batch\<close>\<close>




end
